theory Spec2Isabelle
  imports Main "HOL-Library.AList" "HOL-Library.Multiset"
begin

section \<open>Data model of the offline store (services/offline.ts)\<close>

text \<open>
  The mobile application keeps a queue of pending mutations and a cache per remote
  collection in AsyncStorage, a key-value store of JSON strings. The model keeps the
  parsed values; one field of \<open>storage\<close> stands for one AsyncStorage key, \<open>None\<close> for a
  key that is absent.

  A thrown JavaScript value is either an \<open>Error\<close> with a message or something else (the
  backend client rejects with plain objects); the code tells them apart with
  \<open>error instanceof Error\<close>.
\<close>

datatype exn = Error string | NonError

fun error_message :: "exn \<Rightarrow> string \<Rightarrow> string" where
  "error_message (Error m) dflt = m"
| "error_message NonError dflt = dflt"

datatype op_type = Create | Update | Delete

datatype table = Products | Sales | Sellers

datatype priority = Low | Normal | High | Critical

fun type_name :: "op_type \<Rightarrow> string" where
  "type_name Create = ''create''"
| "type_name Update = ''update''"
| "type_name Delete = ''delete''"

fun table_name :: "table \<Rightarrow> string" where
  "table_name Products = ''products''"
| "table_name Sales = ''sales''"
| "table_name Sellers = ''sellers''"

text \<open>
  The payload of a mutation (\<open>data: any\<close>): the two fields the queue reads, \<open>id\<close> and
  \<open>name\<close>, each possibly missing, and the remaining fields as they are.
\<close>

record payload =
  payload_id :: "string option"
  payload_name :: "string option"
  payload_fields :: "(string \<times> string) list"

text \<open>
  \<open>OfflineQueueItem\<close>. The fields \<open>id\<close>, \<open>type\<close>, \<open>table\<close> and \<open>data\<close> carry the prefix
  \<open>item_\<close>; \<open>dependencies\<close> and \<open>conflictStrategy\<close> are never read or written by the
  functions below and are left out.
\<close>

record OfflineQueueItem =
  item_id :: string
  item_type :: op_type
  item_table :: table
  item_data :: "payload option"
  timestamp :: int
  retryCount :: nat
  priority :: "priority option"

text \<open>A row of a remote collection: its \<open>id\<close>, its \<open>status\<close> (sales have one) and the rest.\<close>

record row =
  row_id :: string
  status :: "string option"
  columns :: "(string \<times> string) list"

record CachedData =
  data :: "row list"
  lastUpdated :: int
  version :: nat

record SyncStatus =
  lastSync :: int
  isOnline :: bool
  pendingItems :: nat

datatype storage_key =
  QUEUE_KEY | PRODUCTS_CACHE_KEY | SALES_CACHE_KEY | SELLERS_CACHE_KEY
  | CATEGORIES_CACHE_KEY | SYNC_STATUS_KEY

text \<open>
  The last field is a trace: every call of \<open>AsyncStorage.setItem\<close> appends its key,
  whether the call succeeds or throws.
\<close>

record storage =
  queue_blob :: "OfflineQueueItem list option"
  products_blob :: "CachedData option"
  sales_blob :: "CachedData option"
  sellers_blob :: "CachedData option"
  categories_blob :: "CachedData option"
  sync_status_blob :: "SyncStatus option"
  setItem_calls :: "storage_key list"

text \<open>A call of the remote interface (\<open>ApiService\<close> and the per-table services).\<close>

datatype remote_call =
  ApiCreate table "payload option"
  | ApiUpdate table "string option" payload
  | ApiDelete table "string option"
  | GetAllProducts | GetAllSales | GetAllSellers | GetAllCategories

text \<open>
  What the collaborators answer during one call of the service: the clock, the random
  suffix of a new queue id, which AsyncStorage calls throw, which remote writes throw,
  and what the four remote reads and the connectivity probe return.
\<close>

record env =
  now :: int
  fresh_suffix :: string
  getItem_throws :: "storage_key \<Rightarrow> bool"
  setItem_throws :: "storage_key \<Rightarrow> exn option"
  removeItem_throws :: "storage_key \<Rightarrow> exn option"
  api_throws :: "remote_call \<Rightarrow> exn option"
  getAll_products :: "exn + row list"
  getAll_sales :: "exn + row list"
  getAll_sellers :: "exn + row list"
  getAll_categories :: "exn + row list"
  netinfo :: "exn + (bool option \<times> bool option)"

section \<open>OfflineStorage\<close>

definition MAX_RETRY_COUNT :: nat where
  "MAX_RETRY_COUNT = 3"

text \<open>
  \<open>AsyncStorage.setItem(key, JSON.stringify(v))\<close>: the call is traced, then it throws or
  stores the value (\<open>upd\<close> writes the field of the key). \<open>None\<close> is a normal return.
\<close>

definition setItem ::
  "env \<Rightarrow> storage_key \<Rightarrow> (storage \<Rightarrow> storage) \<Rightarrow> storage \<Rightarrow> exn option \<times> storage" where
  "setItem e k upd s =
     (let s' = s\<lparr>setItem_calls := setItem_calls s @ [k]\<rparr> in
      case setItem_throws e k of
        Some x \<Rightarrow> (Some x, s')
      | None \<Rightarrow> (None, upd s'))"

definition removeItem ::
  "env \<Rightarrow> storage_key \<Rightarrow> (storage \<Rightarrow> storage) \<Rightarrow> storage \<Rightarrow> exn option \<times> storage" where
  "removeItem e k upd s =
     (case removeItem_throws e k of
        Some x \<Rightarrow> (Some x, s)
      | None \<Rightarrow> (None, upd s))"

text \<open>\<open>getQueue\<close>: a failed read, like an absent key, gives the empty queue.\<close>

definition getQueue :: "env \<Rightarrow> storage \<Rightarrow> OfflineQueueItem list" where
  "getQueue e s =
     (if getItem_throws e QUEUE_KEY then []
      else case queue_blob s of None \<Rightarrow> [] | Some q \<Rightarrow> q)"

definition set_queue :: "env \<Rightarrow> OfflineQueueItem list \<Rightarrow> storage \<Rightarrow> exn option \<times> storage" where
  "set_queue e q s = setItem e QUEUE_KEY (\<lambda>t. t\<lparr>queue_blob := Some q\<rparr>) s"

text \<open>
  \<open>addToQueue\<close>: the new item gets an id from the clock and the random generator,
  the current time, no retries and the priority given or \<open>normal\<close>; every error is
  thrown on.
\<close>

definition addToQueue ::
  "env \<Rightarrow> table \<Rightarrow> op_type \<Rightarrow> payload option \<Rightarrow> priority option \<Rightarrow> storage
    \<Rightarrow> exn option \<times> storage" where
  "addToQueue e tb ty d p s =
     (let queue = getQueue e s;
          queueItem = \<lparr>item_id = table_name tb @ ''_'' @ type_name ty @ ''_'' @ fresh_suffix e,
                       item_type = ty, item_table = tb, item_data = d,
                       timestamp = now e, retryCount = 0,
                       priority = (case p of None \<Rightarrow> Some Normal | Some x \<Rightarrow> Some x)\<rparr>
      in set_queue e (queue @ [queueItem]) s)"

definition removeFromQueue :: "env \<Rightarrow> string \<Rightarrow> storage \<Rightarrow> exn option \<times> storage" where
  "removeFromQueue e itemId s =
     set_queue e (filter (\<lambda>item. item_id item \<noteq> itemId) (getQueue e s)) s"

text \<open>
  \<open>updateQueueItem\<close>: \<open>findIndex\<close> takes the first item with the id; the patch
  (\<open>{...queue[i], ...updates}\<close>) is a function on items. Nothing is written when the id
  is absent.
\<close>

fun update_first :: "('a \<Rightarrow> bool) \<Rightarrow> ('a \<Rightarrow> 'a) \<Rightarrow> 'a list \<Rightarrow> 'a list option" where
  "update_first P f [] = None"
| "update_first P f (x # xs) =
     (if P x then Some (f x # xs)
      else case update_first P f xs of None \<Rightarrow> None | Some ys \<Rightarrow> Some (x # ys))"

definition updateQueueItem ::
  "env \<Rightarrow> string \<Rightarrow> (OfflineQueueItem \<Rightarrow> OfflineQueueItem) \<Rightarrow> storage
    \<Rightarrow> exn option \<times> storage" where
  "updateQueueItem e itemId updates s =
     (case update_first (\<lambda>item. item_id item = itemId) updates (getQueue e s) of
        None \<Rightarrow> (None, s)
      | Some queue \<Rightarrow> set_queue e queue s)"

definition clearQueue :: "env \<Rightarrow> storage \<Rightarrow> exn option \<times> storage" where
  "clearQueue e s = removeItem e QUEUE_KEY (\<lambda>t. t\<lparr>queue_blob := None\<rparr>) s"

definition shouldRetryItem :: "OfflineQueueItem \<Rightarrow> bool" where
  "shouldRetryItem item = (retryCount item < MAX_RETRY_COUNT)"

definition getFailedItems :: "env \<Rightarrow> storage \<Rightarrow> OfflineQueueItem list" where
  "getFailedItems e s = filter (\<lambda>item. \<not> shouldRetryItem item) (getQueue e s)"

subsection \<open>getPrioritizedQueue\<close>

fun priorityOrder :: "priority \<Rightarrow> int" where
  "priorityOrder Critical = 0"
| "priorityOrder High = 1"
| "priorityOrder Normal = 2"
| "priorityOrder Low = 3"

text \<open>\<open>a.priority || 'normal'\<close>\<close>

definition priority_or_normal :: "OfflineQueueItem \<Rightarrow> priority" where
  "priority_or_normal a = (case priority a of None \<Rightarrow> Normal | Some p \<Rightarrow> p)"

text \<open>The comparator handed to \<open>Array.prototype.sort\<close>.\<close>

definition compare_items :: "OfflineQueueItem \<Rightarrow> OfflineQueueItem \<Rightarrow> int" where
  "compare_items a b =
     (let priorityDiff = priorityOrder (priority_or_normal a) - priorityOrder (priority_or_normal b)
      in if priorityDiff \<noteq> 0 then priorityDiff else timestamp a - timestamp b)"

text \<open>
  \<open>Array.prototype.sort\<close> is stable, and for a comparator that is a total preorder a
  stable sort has one result, whatever the algorithm: the one of this insertion sort,
  which puts an element before the first one it does not come after.
\<close>

fun insert_by :: "('a \<Rightarrow> 'a \<Rightarrow> int) \<Rightarrow> 'a \<Rightarrow> 'a list \<Rightarrow> 'a list" where
  "insert_by cmp x [] = [x]"
| "insert_by cmp x (y # ys) =
     (if cmp x y \<le> 0 then x # y # ys else y # insert_by cmp x ys)"

definition sort_by :: "('a \<Rightarrow> 'a \<Rightarrow> int) \<Rightarrow> 'a list \<Rightarrow> 'a list" where
  "sort_by cmp xs = foldr (insert_by cmp) xs []"

definition getPrioritizedQueue :: "env \<Rightarrow> storage \<Rightarrow> OfflineQueueItem list" where
  "getPrioritizedQueue e s = sort_by compare_items (getQueue e s)"

subsection \<open>deduplicateQueue\<close>

text \<open>
  \<open>x || y\<close> on strings that may be missing: a missing or empty string is falsy.
\<close>

fun or_else :: "string option \<Rightarrow> string option \<Rightarrow> string option" where
  "or_else None y = y"
| "or_else (Some v) y = (if v = [] then y else Some v)"

text \<open>\<open>`${item.table}_${item.data?.id || item.data?.name || 'unknown'}`\<close>\<close>

definition dedup_key :: "OfflineQueueItem \<Rightarrow> string" where
  "dedup_key item =
     table_name (item_table item) @ ''_'' @
     (case or_else (case item_data item of None \<Rightarrow> None | Some d \<Rightarrow> payload_id d)
             (or_else (case item_data item of None \<Rightarrow> None | Some d \<Rightarrow> payload_name d)
                (Some ''unknown'')) of
        None \<Rightarrow> []
      | Some k \<Rightarrow> k)"

text \<open>
  The \<open>Map\<close> called \<open>seen\<close> is an association list in insertion order: \<open>Map.set\<close> replaces
  the value of a key in place and puts a new key at the end, which is what
  \<open>AList.update\<close> does; \<open>Array.from(seen.values())\<close> is \<open>map snd\<close>. The body of the loop:
\<close>

definition dedup_step ::
  "OfflineQueueItem \<Rightarrow> (string \<times> OfflineQueueItem) list \<Rightarrow> (string \<times> OfflineQueueItem) list" where
  "dedup_step item seen =
     (let key = dedup_key item in
      case map_of seen key of
        None \<Rightarrow> AList.update key item seen
      | Some existing \<Rightarrow>
          if timestamp item > timestamp existing then AList.update key item seen else seen)"

text \<open>
  The loop runs from the last index down to 0, so the step of the first element is
  applied last: a right fold.
\<close>

definition dedup_seen :: "OfflineQueueItem list \<Rightarrow> (string \<times> OfflineQueueItem) list" where
  "dedup_seen queue = foldr dedup_step queue []"

text \<open>The write is inside \<open>try\<close>; the \<open>catch\<close> only logs.\<close>

definition deduplicateQueue :: "env \<Rightarrow> storage \<Rightarrow> storage" where
  "deduplicateQueue e s =
     (let queue = getQueue e s;
          deduplicatedQueue = map snd (dedup_seen queue)
      in snd (set_queue e deduplicatedQueue s))"

subsection \<open>cleanupOldQueueItems\<close>

definition cleanupOldQueueItems :: "env \<Rightarrow> int \<Rightarrow> storage \<Rightarrow> storage" where
  "cleanupOldQueueItems e hoursOld s =
     (let queue = getQueue e s;
          cutoffTime = now e - hoursOld * 60 * 60 * 1000;
          filteredQueue = filter (\<lambda>item. timestamp item > cutoffTime) queue
      in snd (set_queue e filteredQueue s))"

subsection \<open>Caches and sync status\<close>

definition cacheProducts :: "env \<Rightarrow> row list \<Rightarrow> storage \<Rightarrow> exn option \<times> storage" where
  "cacheProducts e products s =
     setItem e PRODUCTS_CACHE_KEY
       (\<lambda>t. t\<lparr>products_blob := Some \<lparr>data = products, lastUpdated = now e, version = 1\<rparr>\<rparr>) s"

definition getCachedProducts :: "env \<Rightarrow> storage \<Rightarrow> CachedData option" where
  "getCachedProducts e s = (if getItem_throws e PRODUCTS_CACHE_KEY then None else products_blob s)"

definition cacheSales :: "env \<Rightarrow> row list \<Rightarrow> storage \<Rightarrow> exn option \<times> storage" where
  "cacheSales e sales s =
     setItem e SALES_CACHE_KEY
       (\<lambda>t. t\<lparr>sales_blob := Some \<lparr>data = sales, lastUpdated = now e, version = 1\<rparr>\<rparr>) s"

definition getCachedSales :: "env \<Rightarrow> storage \<Rightarrow> CachedData option" where
  "getCachedSales e s = (if getItem_throws e SALES_CACHE_KEY then None else sales_blob s)"

definition cacheSellers :: "env \<Rightarrow> row list \<Rightarrow> storage \<Rightarrow> exn option \<times> storage" where
  "cacheSellers e sellers s =
     setItem e SELLERS_CACHE_KEY
       (\<lambda>t. t\<lparr>sellers_blob := Some \<lparr>data = sellers, lastUpdated = now e, version = 1\<rparr>\<rparr>) s"

definition getCachedSellers :: "env \<Rightarrow> storage \<Rightarrow> CachedData option" where
  "getCachedSellers e s = (if getItem_throws e SELLERS_CACHE_KEY then None else sellers_blob s)"

definition cacheCategories :: "env \<Rightarrow> row list \<Rightarrow> storage \<Rightarrow> exn option \<times> storage" where
  "cacheCategories e categories s =
     setItem e CATEGORIES_CACHE_KEY
       (\<lambda>t. t\<lparr>categories_blob := Some \<lparr>data = categories, lastUpdated = now e, version = 1\<rparr>\<rparr>) s"

definition getCachedCategories :: "env \<Rightarrow> storage \<Rightarrow> CachedData option" where
  "getCachedCategories e s =
     (if getItem_throws e CATEGORIES_CACHE_KEY then None else categories_blob s)"

definition setSyncStatus :: "env \<Rightarrow> SyncStatus \<Rightarrow> storage \<Rightarrow> exn option \<times> storage" where
  "setSyncStatus e st s = setItem e SYNC_STATUS_KEY (\<lambda>t. t\<lparr>sync_status_blob := Some st\<rparr>) s"


text \<open>
  \<open>clearAllCache\<close> starts the five removals together (\<open>Promise.all\<close>): each key whose
  removal does not throw is removed, and the call throws when one of them does. Which
  error it throws when several do depends on their timing; the model takes the first in
  the order of the array.
\<close>

fun first_error :: "exn option list \<Rightarrow> exn option" where
  "first_error [] = None"
| "first_error (None # xs) = first_error xs"
| "first_error (Some x # xs) = Some x"

definition clearAllCache :: "env \<Rightarrow> storage \<Rightarrow> exn option \<times> storage" where
  "clearAllCache e s =
     (let (r1, s1) = removeItem e PRODUCTS_CACHE_KEY (\<lambda>t. t\<lparr>products_blob := None\<rparr>) s;
          (r2, s2) = removeItem e SALES_CACHE_KEY (\<lambda>t. t\<lparr>sales_blob := None\<rparr>) s1;
          (r3, s3) = removeItem e SELLERS_CACHE_KEY (\<lambda>t. t\<lparr>sellers_blob := None\<rparr>) s2;
          (r4, s4) = removeItem e CATEGORIES_CACHE_KEY (\<lambda>t. t\<lparr>categories_blob := None\<rparr>) s3;
          (r5, s5) = removeItem e SYNC_STATUS_KEY (\<lambda>t. t\<lparr>sync_status_blob := None\<rparr>) s4
      in (first_error [r1, r2, r3, r4, r5], s5))"

section \<open>SyncService (services/sync.ts)\<close>

text \<open>
  The state the service works on: its two static fields, the store, the part of the UI
  store it writes (the loading flag and the toast; the timer that hides the toast is
  left out) and the trace of the calls made to the remote interface.
\<close>

datatype toast_type = ToastSuccess | ToastError | ToastInfo | ToastWarning

record ui_state =
  isLoading :: bool
  loadingMessage :: "string option"
  toast_visible :: bool
  toast_message :: string
  toast_kind :: toast_type

record state =
  isOnline_flag :: bool
  syncInProgress :: bool
  store :: storage
  ui :: ui_state
  remote_log :: "remote_call list"

record SyncResult =
  success :: bool
  syncedItems :: nat
  failedItems :: nat
  errors :: "string list"

definition setLoading :: "bool \<Rightarrow> string option \<Rightarrow> state \<Rightarrow> state" where
  "setLoading loading msg st = st\<lparr>ui := (ui st)\<lparr>isLoading := loading, loadingMessage := msg\<rparr>\<rparr>"

definition showToast :: "string \<Rightarrow> toast_type \<Rightarrow> state \<Rightarrow> state" where
  "showToast msg ty st =
     st\<lparr>ui := (ui st)\<lparr>toast_visible := True, toast_message := msg, toast_kind := ty\<rparr>\<rparr>"

text \<open>The decimal digits of a count, as a template string prints it.\<close>

fun show_nat :: "nat \<Rightarrow> string" where
  "show_nat n =
     (if n < 10 then [''0123456789'' ! n]
      else show_nat (n div 10) @ [''0123456789'' ! (n mod 10)])"

declare show_nat.simps [simp del]

definition initialize :: "state \<Rightarrow> state" where
  "initialize st = st\<lparr>isOnline_flag := True\<rparr>"

text \<open>\<open>checkOnlineStatus\<close> returns what the platform reports and assigns nothing.\<close>

definition checkOnlineStatus :: "env \<Rightarrow> bool" where
  "checkOnlineStatus e =
     (case netinfo e of
        Inl x \<Rightarrow> True
      | Inr (isConnected, isInternetReachable) \<Rightarrow>
          isConnected = Some True \<and> isInternetReachable = Some True)"

text \<open>A remote write: the call is traced, and it throws or returns.\<close>

definition api :: "env \<Rightarrow> remote_call \<Rightarrow> state \<Rightarrow> exn option \<times> state" where
  "api e c st = (api_throws e c, st\<lparr>remote_log := remote_log st @ [c]\<rparr>)"

text \<open>
  \<open>processQueueItem\<close>: the three tables have the same three cases, and the types exclude
  the \<open>default\<close> branch. Reading \<open>item.data.id\<close> of a missing payload is a \<open>TypeError\<close>,
  thrown before anything is sent.
\<close>

definition TypeError :: exn where
  "TypeError = Error ''Cannot read properties of undefined''"

definition processQueueItem ::
  "env \<Rightarrow> table \<Rightarrow> op_type \<Rightarrow> payload option \<Rightarrow> state \<Rightarrow> exn option \<times> state" where
  "processQueueItem e tb ty d st =
     (case ty of
        Create \<Rightarrow> api e (ApiCreate tb d) st
      | Update \<Rightarrow>
          (case d of
             None \<Rightarrow> (Some TypeError, st)
           | Some p \<Rightarrow> api e (ApiUpdate tb (payload_id p) p) st)
      | Delete \<Rightarrow>
          (case d of
             None \<Rightarrow> (Some TypeError, st)
           | Some p \<Rightarrow> api e (ApiDelete tb (payload_id p)) st))"

subsection \<open>Draining the queue\<close>

text \<open>The \<open>try\<close> block of the loop: send the item, then remove it from the queue.\<close>

definition try_item :: "env \<Rightarrow> OfflineQueueItem \<Rightarrow> state \<Rightarrow> exn option \<times> state" where
  "try_item e item st =
     (case processQueueItem e (item_table item) (item_type item) (item_data item) st of
        (Some x, st1) \<Rightarrow> (Some x, st1)
      | (None, st1) \<Rightarrow>
          (case removeFromQueue e (item_id item) (store st1) of
             (r, s2) \<Rightarrow> (r, st1\<lparr>store := s2\<rparr>)))"

definition item_error :: "OfflineQueueItem \<Rightarrow> exn \<Rightarrow> string" where
  "item_error item x =
     ''Failed to sync '' @ type_name (item_type item) @ '' '' @ table_name (item_table item)
       @ '': '' @ error_message x ''Unknown error''"

text \<open>
  The loop over the prioritized queue, with the three counters. An error of the \<open>try\<close>
  block is handled in the \<open>catch\<close>; an error of \<open>updateQueueItem\<close>, thrown inside the
  \<open>catch\<close>, leaves the loop and the function.
\<close>

fun drain_loop ::
  "env \<Rightarrow> OfflineQueueItem list \<Rightarrow> nat \<times> nat \<times> string list \<Rightarrow> state
    \<Rightarrow> (exn + nat \<times> nat \<times> string list) \<times> state" where
  "drain_loop e [] acc st = (Inr acc, st)"
| "drain_loop e (item # rest) (synced, failed, errs) st =
     (case try_item e item st of
        (None, st1) \<Rightarrow> drain_loop e rest (synced + 1, failed, errs) st1
      | (Some x, st1) \<Rightarrow>
          if shouldRetryItem item then
            (case updateQueueItem e (item_id item) (\<lambda>q. q\<lparr>retryCount := retryCount item + 1\<rparr>)
                    (store st1) of
               (Some y, s2) \<Rightarrow> (Inl y, st1\<lparr>store := s2\<rparr>)
             | (None, s2) \<Rightarrow> drain_loop e rest (synced, failed, errs) (st1\<lparr>store := s2\<rparr>))
          else drain_loop e rest (synced, failed + 1, errs @ [item_error item x]) st1)"

text \<open>
  \<open>syncOfflineQueue\<close>. \<open>detectConflicts\<close> reads the queue and its result is only logged,
  so it is not part of the model.
\<close>

definition syncOfflineQueue :: "env \<Rightarrow> state \<Rightarrow> (exn + SyncResult) \<times> state" where
  "syncOfflineQueue e st =
     (let s1 = cleanupOldQueueItems e 24 (store st);
          s2 = deduplicateQueue e s1;
          queue = getPrioritizedQueue e s2
      in case drain_loop e queue (0, 0, []) (st\<lparr>store := s2\<rparr>) of
           (Inl x, st') \<Rightarrow> (Inl x, st')
         | (Inr (synced, failed, errs), st') \<Rightarrow>
             (Inr \<lparr>success = (failed = 0), syncedItems = synced, failedItems = failed,
                   errors = errs\<rparr>, st'))"

subsection \<open>Pulling the collections\<close>

definition startsWith :: "string \<Rightarrow> string \<Rightarrow> bool" where
  "startsWith s p = (take (length p) s = p)"

text \<open>
  In both merge functions the list of conflicts is computed to be logged and nothing
  else; the model leaves it out. For products the server's rows are cached as they are.
\<close>

definition syncProductsWithConflictResolution ::
  "env \<Rightarrow> row list \<Rightarrow> storage \<Rightarrow> exn option \<times> storage" where
  "syncProductsWithConflictResolution e serverProducts s =
     (let resolvedProducts = serverProducts in cacheProducts e resolvedProducts s)"

text \<open>\<open>new Map(localSales.map(s => [s.id, s]))\<close>: the last row of an id is the one kept.\<close>

definition localMap :: "row list \<Rightarrow> string \<Rightarrow> row option" where
  "localMap rows = map_of (rev (map (\<lambda>r. (row_id r, r)) rows))"

definition syncSalesWithConflictResolution ::
  "env \<Rightarrow> row list \<Rightarrow> storage \<Rightarrow> exn option \<times> storage" where
  "syncSalesWithConflictResolution e serverSales s =
     (let localSales = (case getCachedSales e s of None \<Rightarrow> [] | Some c \<Rightarrow> data c);
          resolvedSales =
            filter (\<lambda>serverSale.
                      case localMap localSales (row_id serverSale) of
                        None \<Rightarrow> True
                      | Some localSale \<Rightarrow>
                          \<not> (status localSale = Some ''pending''
                             \<and> startsWith (row_id localSale) ''temp_''))
              serverSales;
          pendingLocalSales =
            filter (\<lambda>sale. startsWith (row_id sale) ''temp_'' \<and> status sale = Some ''pending'')
              localSales
      in cacheSales e (resolvedSales @ pendingLocalSales) s)"

text \<open>
  One of the four \<open>try\<close> blocks of \<open>syncFromServer\<close>: read the collection, hand it to the
  function that caches it, count its rows; an error of either step counts one failure.
\<close>

definition pull_block ::
  "env \<Rightarrow> remote_call \<Rightarrow> exn + row list \<Rightarrow> (row list \<Rightarrow> storage \<Rightarrow> exn option \<times> storage)
    \<Rightarrow> string \<Rightarrow> nat \<times> nat \<times> string list \<Rightarrow> state \<Rightarrow> (nat \<times> nat \<times> string list) \<times> state" where
  "pull_block e c fetched cache name acc st =
     (case acc of (synced, failed, errs) \<Rightarrow>
      let st1 = st\<lparr>remote_log := remote_log st @ [c]\<rparr>;
          msg = (\<lambda>x. ''Failed to sync '' @ name @ '': '' @ error_message x ''Unknown error'')
      in case fetched of
           Inl x \<Rightarrow> ((synced, failed + 1, errs @ [msg x]), st1)
         | Inr rows \<Rightarrow>
             (case cache rows (store st1) of
                (Some x, s2) \<Rightarrow> ((synced, failed + 1, errs @ [msg x]), st1\<lparr>store := s2\<rparr>)
              | (None, s2) \<Rightarrow> ((synced + length rows, failed, errs), st1\<lparr>store := s2\<rparr>)))"

definition syncFromServer :: "env \<Rightarrow> state \<Rightarrow> SyncResult \<times> state" where
  "syncFromServer e st =
     (let (a1, st1) = pull_block e GetAllProducts (getAll_products e)
                        (syncProductsWithConflictResolution e) ''products'' (0, 0, []) st;
          (a2, st2) = pull_block e GetAllSales (getAll_sales e)
                        (syncSalesWithConflictResolution e) ''sales'' a1 st1;
          (a3, st3) = pull_block e GetAllSellers (getAll_sellers e)
                        (cacheSellers e) ''sellers'' a2 st2;
          (a4, st4) = pull_block e GetAllCategories (getAll_categories e)
                        (cacheCategories e) ''categories'' a3 st3
      in case a4 of (synced, failed, errs) \<Rightarrow>
           (\<lparr>success = (failed = 0), syncedItems = synced, failedItems = failed,
             errors = errs\<rparr>, st4))"

subsection \<open>The sync cycle\<close>

text \<open>
  \<open>performSync\<close> catches whatever \<open>syncOfflineQueue\<close> throws, and \<open>syncFromServer\<close> throws
  nothing: it always returns a result.
\<close>

definition performSync :: "env \<Rightarrow> state \<Rightarrow> SyncResult \<times> state" where
  "performSync e st =
     (case syncOfflineQueue e st of
        (Inl x, st1) \<Rightarrow>
          (\<lparr>success = False, syncedItems = 0, failedItems = 0 + 1,
            errors = [] @ [error_message x ''Sync error'']\<rparr>, st1)
      | (Inr queueResult, st1) \<Rightarrow>
          (case syncFromServer e st1 of
             (cacheResult, st2) \<Rightarrow>
               (\<lparr>success = (failedItems queueResult + failedItems cacheResult = 0),
                 syncedItems = syncedItems queueResult + syncedItems cacheResult,
                 failedItems = failedItems queueResult + failedItems cacheResult,
                 errors = errors queueResult @ errors cacheResult\<rparr>, st2)))"

text \<open>
  \<open>syncAll\<close>: the two guards, then the cycle (\<open>sync_cycle\<close>: the \<open>try\<close>, its \<open>catch\<close> and
  the \<open>finally\<close> that clears the guard). The \<open>catch\<close> is reached when \<open>setSyncStatus\<close>
  throws; the functions of the UI store do not throw.
\<close>

definition sync_cycle :: "env \<Rightarrow> state \<Rightarrow> SyncResult \<times> state" where
  "sync_cycle e st =
     (let st1 = st\<lparr>syncInProgress := True\<rparr>;
          st2 = setLoading True (Some ''Syncing data...'') st1
      in case performSync e st2 of
           (result, st3) \<Rightarrow>
             (case setSyncStatus e
                     \<lparr>lastSync = now e, isOnline = True, pendingItems = failedItems result\<rparr>
                     (store st3) of
                (None, s4) \<Rightarrow>
                  (let st4 = setLoading False None (st3\<lparr>store := s4\<rparr>);
                       st5 = (if success result then
                                showToast (''Synced '' @ show_nat (syncedItems result)
                                             @ '' items successfully'') ToastSuccess st4
                              else if failedItems result > 0 then
                                showToast (show_nat (failedItems result)
                                             @ '' items failed to sync'') ToastWarning st4
                              else st4)
                   in (result, st5\<lparr>syncInProgress := False\<rparr>))
              | (Some x, s4) \<Rightarrow>
                  (let st4 = setLoading False None (st3\<lparr>store := s4\<rparr>);
                       st5 = showToast ''Sync failed'' ToastError st4
                   in (\<lparr>success = False, syncedItems = 0, failedItems = 0,
                        errors = [error_message x ''Unknown sync error'']\<rparr>,
                       st5\<lparr>syncInProgress := False\<rparr>))))"

definition syncAll :: "env \<Rightarrow> state \<Rightarrow> SyncResult \<times> state" where
  "syncAll e st =
     (if syncInProgress st then
        (\<lparr>success = False, syncedItems = 0, failedItems = 0,
          errors = [''Sync already in progress'']\<rparr>, st)
      else if \<not> isOnline_flag st then
        (\<lparr>success = False, syncedItems = 0, failedItems = 0,
          errors = [''Device is offline'']\<rparr>, st)
      else sync_cycle e st)"

subsection \<open>The other entry points\<close>

text \<open>
  \<open>queueOperation\<close>, with its two branches named: execute now and enqueue on failure
  (then throw the error on), or enqueue without sending.
\<close>

definition queueOperation_online ::
  "env \<Rightarrow> table \<Rightarrow> op_type \<Rightarrow> payload option \<Rightarrow> state \<Rightarrow> exn option \<times> state" where
  "queueOperation_online e tb ty d st =
     (case processQueueItem e tb ty d st of
        (None, st1) \<Rightarrow> (None, st1)
      | (Some x, st1) \<Rightarrow>
          (case addToQueue e tb ty d None (store st1) of
             (Some y, s2) \<Rightarrow> (Some y, st1\<lparr>store := s2\<rparr>)
           | (None, s2) \<Rightarrow> (Some x, st1\<lparr>store := s2\<rparr>)))"

definition queueOperation_offline ::
  "env \<Rightarrow> table \<Rightarrow> op_type \<Rightarrow> payload option \<Rightarrow> state \<Rightarrow> exn option \<times> state" where
  "queueOperation_offline e tb ty d st =
     (case addToQueue e tb ty d None (store st) of (r, s1) \<Rightarrow> (r, st\<lparr>store := s1\<rparr>))"

definition queueOperation ::
  "env \<Rightarrow> table \<Rightarrow> op_type \<Rightarrow> payload option \<Rightarrow> state \<Rightarrow> exn option \<times> state" where
  "queueOperation e tb ty d st =
     (if isOnline_flag st then queueOperation_online e tb ty d st
      else queueOperation_offline e tb ty d st)"

definition getCachedData :: "env \<Rightarrow> table \<Rightarrow> state \<Rightarrow> row list" where
  "getCachedData e tb st =
     (if isOnline_flag st then []
      else case tb of
             Products \<Rightarrow> (case getCachedProducts e (store st) of None \<Rightarrow> [] | Some c \<Rightarrow> data c)
           | Sales \<Rightarrow> (case getCachedSales e (store st) of None \<Rightarrow> [] | Some c \<Rightarrow> data c)
           | Sellers \<Rightarrow> (case getCachedSellers e (store st) of None \<Rightarrow> [] | Some c \<Rightarrow> data c))"

definition forceSync :: "env \<Rightarrow> state \<Rightarrow> SyncResult \<times> state" where
  "forceSync e st = syncAll e st"

definition clearOfflineData :: "env \<Rightarrow> state \<Rightarrow> exn option \<times> state" where
  "clearOfflineData e st =
     (case clearAllCache e (store st) of
        (Some x, s1) \<Rightarrow> (Some x, st\<lparr>store := s1\<rparr>)
      | (None, s1) \<Rightarrow> (case clearQueue e s1 of (r, s2) \<Rightarrow> (r, st\<lparr>store := s2\<rparr>)))"

definition getPendingOperationsCount :: "env \<Rightarrow> state \<Rightarrow> nat" where
  "getPendingOperationsCount e st = length (getQueue e (store st))"

text \<open>\<open>retryFailedOperations\<close>: here an error of \<open>removeFromQueue\<close> is counted like any other.\<close>

fun retry_loop ::
  "env \<Rightarrow> OfflineQueueItem list \<Rightarrow> nat \<times> nat \<times> string list \<Rightarrow> state
    \<Rightarrow> (nat \<times> nat \<times> string list) \<times> state" where
  "retry_loop e [] acc st = (acc, st)"
| "retry_loop e (item # rest) (synced, failed, errs) st =
     (case try_item e item st of
        (None, st1) \<Rightarrow> retry_loop e rest (synced + 1, failed, errs) st1
      | (Some x, st1) \<Rightarrow>
          retry_loop e rest
            (synced, failed + 1,
             errs @ [''Failed to retry '' @ type_name (item_type item) @ '' ''
                       @ table_name (item_table item) @ '': ''
                       @ error_message x ''Unknown error'']) st1)"

definition retryFailedOperations :: "env \<Rightarrow> state \<Rightarrow> SyncResult \<times> state" where
  "retryFailedOperations e st =
     (case retry_loop e (getFailedItems e (store st)) (0, 0, []) st of
        ((synced, failed, errs), st') \<Rightarrow>
          (\<lparr>success = (failed = 0), syncedItems = synced, failedItems = failed,
            errors = errs\<rparr>, st'))"

text \<open>How many times the sync status has been written: the calls of \<open>setItem\<close> on its key.\<close>

definition status_writes :: "storage \<Rightarrow> nat" where
  "status_writes s = count_list (setItem_calls s) SYNC_STATUS_KEY"

text \<open>
  The fields of the state that a step does not touch, collected in one relation: the
  two static fields, the UI store and the number of writes of the sync status.
\<close>

definition same_frame :: "state \<Rightarrow> state \<Rightarrow> bool" where
  "same_frame st st' \<longleftrightarrow>
     isOnline_flag st' = isOnline_flag st \<and> syncInProgress st' = syncInProgress st
     \<and> ui st' = ui st \<and> status_writes (store st') = status_writes (store st)"

section \<open>The states the service can be in\<close>

text \<open>
  The entry points of \<open>SyncService\<close>. \<open>run\<close> gives the state after a call; the calls
  that only read leave it as it is.
\<close>

datatype call =
  Initialize | CheckOnlineStatus | SyncAll | QueueOperation table op_type "payload option"
  | GetCachedData table | GetSyncStatus | ForceSync | ClearOfflineData
  | GetPendingOperationsCount | RetryFailedOperations

fun run :: "env \<Rightarrow> call \<Rightarrow> state \<Rightarrow> state" where
  "run e Initialize st = initialize st"
| "run e CheckOnlineStatus st = st"
| "run e SyncAll st = snd (syncAll e st)"
| "run e (QueueOperation tb ty d) st = snd (queueOperation e tb ty d st)"
| "run e (GetCachedData tb) st = st"
| "run e GetSyncStatus st = st"
| "run e ForceSync st = snd (forceSync e st)"
| "run e ClearOfflineData st = snd (clearOfflineData e st)"
| "run e GetPendingOperationsCount st = st"
| "run e RetryFailedOperations st = snd (retryFailedOperations e st)"

text \<open>
  The static initialisers set \<open>isOnline = true\<close> and \<open>syncInProgress = false\<close>; the store
  is whatever the last run of the application left. The two static fields are private.
  Between two calls of the service anything else may have happened: other modules write
  the store and the UI store, and a call may arrive while a cycle is suspended at an
  \<open>await\<close>, with the guard set. The third rule allows all of that.
\<close>

inductive reachable :: "state \<Rightarrow> bool" where
  start: "reachable \<lparr>isOnline_flag = True, syncInProgress = False, store = s, ui = u,
                     remote_log = []\<rparr>"
| call: "reachable st \<Longrightarrow> reachable (run e c st)"
| elsewhere: "reachable st \<Longrightarrow> reachable (st\<lparr>syncInProgress := b, store := s, ui := u\<rparr>)"

section \<open>Concrete environments and states\<close>

text \<open>An environment in which every collaborator works and the server has no rows.\<close>

definition working_env :: env where
  "working_env =
     \<lparr>now = 1000, fresh_suffix = ''1000_0.5'',
      getItem_throws = (\<lambda>k. False), setItem_throws = (\<lambda>k. None),
      removeItem_throws = (\<lambda>k. None), api_throws = (\<lambda>c. None),
      getAll_products = Inr [], getAll_sales = Inr [], getAll_sellers = Inr [],
      getAll_categories = Inr [], netinfo = Inr (Some True, Some True)\<rparr>"

text \<open>The same, with a remote interface that refuses every write.\<close>

definition failing_remote_env :: env where
  "failing_remote_env = working_env\<lparr>api_throws := (\<lambda>c. Some NonError)\<rparr>"

definition empty_storage :: storage where
  "empty_storage =
     \<lparr>queue_blob = None, products_blob = None, sales_blob = None, sellers_blob = None,
      categories_blob = None, sync_status_blob = None, setItem_calls = []\<rparr>"

definition initial_ui :: ui_state where
  "initial_ui =
     \<lparr>isLoading = False, loadingMessage = None, toast_visible = False, toast_message = [],
      toast_kind = ToastInfo\<rparr>"

definition state_with :: "storage \<Rightarrow> state" where
  "state_with s =
     \<lparr>isOnline_flag = True, syncInProgress = False, store = s, ui = initial_ui,
      remote_log = []\<rparr>"

definition update_item :: "string \<Rightarrow> string \<Rightarrow> string \<Rightarrow> int \<Rightarrow> OfflineQueueItem" where
  "update_item qid ident v ts =
     \<lparr>item_id = qid, item_type = Update, item_table = Products,
      item_data = Some \<lparr>payload_id = Some ident, payload_name = None,
                        payload_fields = [(''stock'', v)]\<rparr>,
      timestamp = ts, retryCount = 0, priority = Some Normal\<rparr>"

definition nameless_item :: "string \<Rightarrow> string \<Rightarrow> int \<Rightarrow> OfflineQueueItem" where
  "nameless_item qid v ts =
     \<lparr>item_id = qid, item_type = Create, item_table = Sales,
      item_data = Some \<lparr>payload_id = None, payload_name = None,
                        payload_fields = [(''total_amount'', v)]\<rparr>,
      timestamp = ts, retryCount = 0, priority = Some Normal\<rparr>"

definition storage_with_queue :: "OfflineQueueItem list \<Rightarrow> storage" where
  "storage_with_queue q = empty_storage\<lparr>queue_blob := Some q\<rparr>"

definition refusing_env :: "int \<Rightarrow> string \<Rightarrow> env" where
  "refusing_env t sfx = failing_remote_env\<lparr>now := t, fresh_suffix := sfx\<rparr>"


definition stock_update :: "string \<Rightarrow> string \<Rightarrow> payload" where
  "stock_update ident v =
     \<lparr>payload_id = Some ident, payload_name = None, payload_fields = [(''stock'', v)]\<rparr>"


text \<open>The item that \<open>queueOperation\<close> stores at time \<open>t\<close> after the send has failed.\<close>

definition queued :: "table \<Rightarrow> op_type \<Rightarrow> payload \<Rightarrow> int \<Rightarrow> string \<Rightarrow> OfflineQueueItem" where
  "queued tb ty d t sfx =
     \<lparr>item_id = table_name tb @ ''_'' @ type_name ty @ ''_'' @ sfx, item_type = ty,
      item_table = tb, item_data = Some d, timestamp = t, retryCount = 0,
      priority = Some Normal\<rparr>"

text \<open>
  States reached from a fresh installation by calls of \<open>queueOperation\<close> while the
  remote interface refuses every write: each operation is sent, fails and is queued.
\<close>

definition after_queueing :: "(table \<times> op_type \<times> payload \<times> int \<times> string) list \<Rightarrow> state" where
  "after_queueing ops =
     foldl (\<lambda>st (tb, ty, d, t, sfx). run (refusing_env t sfx) (QueueOperation tb ty (Some d)) st)
       (state_with empty_storage) ops"

section \<open>The words of the claims\<close>

text \<open>
  Two definitions that follow the words of the claims and not the code, for the
  statements below to be measured against. The bands of priority in the order the claim
  gives, critical, high, normal, low, an item without priority counting as normal:
\<close>

fun claimed_band :: "priority option \<Rightarrow> nat" where
  "claimed_band (Some Critical) = 0"
| "claimed_band (Some High) = 1"
| "claimed_band (Some Normal) = 2"
| "claimed_band None = 2"
| "claimed_band (Some Low) = 3"



section \<open>What the program can put into the store\<close>

text \<open>
  The ids of the remote rows are uuids, given by the database; none starts with
  \<open>temp_\<close>, the mark of an identity minted on the device.
\<close>

definition no_temporary_ids :: "row list \<Rightarrow> bool" where
  "no_temporary_ids rows = (\<forall>r \<in> set rows. \<not> startsWith (row_id r) ''temp_'')"


definition cached_rows :: "CachedData option \<Rightarrow> row list" where
  "cached_rows c = (case c of None \<Rightarrow> [] | Some x \<Rightarrow> data x)"

definition no_temporary_cached :: "storage \<Rightarrow> bool" where
  "no_temporary_cached s =
     (no_temporary_ids (cached_rows (products_blob s))
      \<and> no_temporary_ids (cached_rows (sales_blob s))
      \<and> no_temporary_ids (cached_rows (sellers_blob s)))"



section \<open>Properties of the queue\<close>

lemma compare_items_total: "compare_items a b \<le> 0 \<or> compare_items b a \<le> 0"
  by (auto simp: compare_items_def Let_def)

lemma compare_items_trans:
  "compare_items a b \<le> 0 \<Longrightarrow> compare_items b c \<le> 0 \<Longrightarrow> compare_items a c \<le> 0"
  by (auto simp: compare_items_def Let_def split: if_splits)

lemma set_insert_by: "set (insert_by cmp x ys) = insert x (set ys)"
  by (induction ys) auto

lemma mset_insert_by: "mset (insert_by cmp x ys) = add_mset x (mset ys)"
  by (induction ys) auto

lemma mset_sort_by: "mset (sort_by cmp xs) = mset xs"
  by (induction xs) (simp_all add: sort_by_def mset_insert_by)

lemma sorted_insert_by:
  "sorted_wrt (\<lambda>a b. compare_items a b \<le> 0) ys \<Longrightarrow>
   sorted_wrt (\<lambda>a b. compare_items a b \<le> 0) (insert_by compare_items x ys)"
proof (induction ys)
  case Nil
  then show ?case by simp
next
  case (Cons y ys)
  show ?case
  proof (cases "compare_items x y \<le> 0")
    case True
    with Cons.prems show ?thesis
      by (auto intro: compare_items_trans)
  next
    case False
    then have "compare_items y x \<le> 0"
      using compare_items_total [of x y] by simp
    with False Cons show ?thesis
      by (auto simp: set_insert_by)
  qed
qed

lemma sorted_sort_by:
  "sorted_wrt (\<lambda>a b. compare_items a b \<le> 0) (sort_by compare_items xs)"
  by (induction xs) (simp_all add: sort_by_def sorted_insert_by)

lemma compare_items_le_iff:
  "compare_items a b \<le> 0 \<longleftrightarrow>
     priorityOrder (priority_or_normal a) < priorityOrder (priority_or_normal b)
     \<or> (priority_or_normal a = priority_or_normal b \<and> timestamp a \<le> timestamp b)"
  by (cases "priority_or_normal a"; cases "priority_or_normal b")
     (simp_all add: compare_items_def Let_def)

subsection \<open>What deduplicateQueue keeps, and in which order\<close>

lemma dedup_step_keys:
  "map fst (dedup_step item seen) =
     (if dedup_key item \<in> set (map fst seen) then map fst seen
      else map fst seen @ [dedup_key item])"
proof (cases "map_of seen (dedup_key item)")
  case None
  then have "dedup_key item \<notin> set (map fst seen)"
    by (simp add: map_of_eq_None_iff)
  with None show ?thesis
    by (simp add: dedup_step_def update_keys)
next
  case (Some existing)
  then have "dedup_key item \<in> set (map fst seen)"
    by (metis map_of_eq_None_iff option.distinct(1) set_map)
  with Some show ?thesis
    by (simp add: dedup_step_def update_keys)
qed

lemma dedup_seen_keys: "map fst (dedup_seen q) = rev (remdups (map dedup_key q))"
proof (induction q)
  case Nil
  show ?case by (simp add: dedup_seen_def)
next
  case (Cons x q)
  have step: "dedup_seen (x # q) = dedup_step x (dedup_seen q)"
    by (simp add: dedup_seen_def)
  have keys: "set (map fst (dedup_seen q)) = dedup_key ` set q"
    using Cons.IH by simp
  show ?case
    unfolding step dedup_step_keys keys Cons.IH by simp
qed


lemma update_entries:
  "(k', v) \<in> set (AList.update k x al) \<Longrightarrow> (k', v) \<in> set al \<or> (k' = k \<and> v = x)"
  by (induction al) (auto split: if_splits)

lemma dedup_step_entries:
  "(k, v) \<in> set (dedup_step item seen) \<Longrightarrow>
   (k, v) \<in> set seen \<or> (k = dedup_key item \<and> v = item)"
  by (auto simp: dedup_step_def Let_def split: option.splits if_splits
           dest: update_entries)

lemma dedup_seen_entries:
  "(k, v) \<in> set (dedup_seen q) \<Longrightarrow> dedup_key v = k \<and> v \<in> set q"
proof (induction q)
  case Nil
  then show ?case by (simp add: dedup_seen_def)
next
  case (Cons x q)
  have step: "dedup_seen (x # q) = dedup_step x (dedup_seen q)"
    by (simp add: dedup_seen_def)
  from Cons.prems have "(k, v) \<in> set (dedup_seen q) \<or> (k = dedup_key x \<and> v = x)"
    unfolding step by (rule dedup_step_entries)
  with Cons.IH show ?case by auto
qed



lemma dedup_step_lookup:
  "map_of (dedup_step item seen) k =
     (if dedup_key item = k then
        (case map_of seen k of
           None \<Rightarrow> Some item
         | Some existing \<Rightarrow> if timestamp item > timestamp existing then Some item else Some existing)
      else map_of seen k)"
  by (auto simp: dedup_step_def Let_def update_conv' split: option.splits)


lemma getQueue_deduplicateQueue:
  "setItem_throws e QUEUE_KEY = None \<Longrightarrow>
   getQueue e (deduplicateQueue e s) = map snd (dedup_seen (getQueue e s))"
  by (simp add: deduplicateQueue_def set_queue_def setItem_def getQueue_def Let_def dedup_seen_def)

lemma foldr_dedup_step_other:
  "\<forall>i \<in> set xs. dedup_key i \<noteq> k \<Longrightarrow>
   map_of (foldr dedup_step xs seen) k = map_of seen k"
  by (induction xs) (simp_all add: dedup_step_lookup)


lemma dedup_seen_append: "dedup_seen (xs @ ys) = foldr dedup_step xs (dedup_seen ys)"
  by (simp add: dedup_seen_def)


section \<open>What the steps of a cycle leave alone\<close>

lemma set_queue_status_writes:
  "set_queue e q s = (r, s') \<Longrightarrow> status_writes s' = status_writes s"
  by (auto simp: set_queue_def setItem_def status_writes_def Let_def split: option.splits)

lemma removeFromQueue_status_writes:
  "removeFromQueue e i s = (r, s') \<Longrightarrow> status_writes s' = status_writes s"
  by (auto simp: removeFromQueue_def dest: set_queue_status_writes)

lemma updateQueueItem_status_writes:
  "updateQueueItem e i f s = (r, s') \<Longrightarrow> status_writes s' = status_writes s"
  by (auto simp: updateQueueItem_def dest: set_queue_status_writes split: option.splits)

lemma addToQueue_status_writes:
  "addToQueue e tb ty d p s = (r, s') \<Longrightarrow> status_writes s' = status_writes s"
  by (auto simp: addToQueue_def Let_def dest: set_queue_status_writes)

lemma cleanupOldQueueItems_status_writes:
  "status_writes (cleanupOldQueueItems e h s) = status_writes s"
  by (simp add: cleanupOldQueueItems_def Let_def set_queue_status_writes [OF surjective_pairing])

lemma deduplicateQueue_status_writes:
  "status_writes (deduplicateQueue e s) = status_writes s"
  by (simp add: deduplicateQueue_def Let_def set_queue_status_writes [OF surjective_pairing])

lemma cache_status_writes:
  "cacheProducts e rows s = (r, s') \<Longrightarrow> status_writes s' = status_writes s"
  "cacheSales e rows s = (r, s') \<Longrightarrow> status_writes s' = status_writes s"
  "cacheSellers e rows s = (r, s') \<Longrightarrow> status_writes s' = status_writes s"
  "cacheCategories e rows s = (r, s') \<Longrightarrow> status_writes s' = status_writes s"
  by (auto simp: cacheProducts_def cacheSales_def cacheSellers_def cacheCategories_def
      setItem_def status_writes_def Let_def split: option.splits)

lemma merge_status_writes:
  "syncProductsWithConflictResolution e rows s = (r, s') \<Longrightarrow> status_writes s' = status_writes s"
  "syncSalesWithConflictResolution e rows s = (r, s') \<Longrightarrow> status_writes s' = status_writes s"
  by (auto simp: syncProductsWithConflictResolution_def syncSalesWithConflictResolution_def
      Let_def dest: cache_status_writes)

lemma same_frame_refl: "same_frame st st"
  by (simp add: same_frame_def)

lemma same_frame_trans: "same_frame a b \<Longrightarrow> same_frame b c \<Longrightarrow> same_frame a c"
  by (simp add: same_frame_def)

lemma same_frame_store:
  "same_frame st st1 \<Longrightarrow> status_writes s = status_writes (store st1) \<Longrightarrow>
   same_frame st (st1\<lparr>store := s\<rparr>)"
  by (simp add: same_frame_def)

lemma processQueueItem_frame:
  "processQueueItem e tb ty d st = (r, st') \<Longrightarrow> same_frame st st'"
  by (auto simp: processQueueItem_def api_def same_frame_def split: op_type.splits option.splits)

lemma try_item_frame: "try_item e item st = (r, st') \<Longrightarrow> same_frame st st'"
  by (auto simp: try_item_def split: prod.splits option.splits
      dest!: processQueueItem_frame removeFromQueue_status_writes intro: same_frame_store)

lemma drain_loop_frame: "drain_loop e items acc st = (r, st') \<Longrightarrow> same_frame st st'"
proof (induction e items acc st arbitrary: r st' rule: drain_loop.induct)
  case (1 e acc st)
  then show ?case by (simp add: same_frame_refl)
next
  case (2 e item rest synced failed errs st)
  obtain t st1 where t: "try_item e item st = (t, st1)" by (cases "try_item e item st")
  then have f1: "same_frame st st1" by (rule try_item_frame)
  show ?case
  proof (cases t)
    case None
    with t "2.prems" have "drain_loop e rest (synced + 1, failed, errs) st1 = (r, st')"
      by simp
    with "2.IH"(1) t None have "same_frame st1 st'" by simp
    with f1 show ?thesis by (rule same_frame_trans)
  next
    case (Some x)
    show ?thesis
    proof (cases "shouldRetryItem item")
      case False
      with t Some "2.prems"
      have "drain_loop e rest (synced, failed + 1, errs @ [item_error item x]) st1 = (r, st')"
        by simp
      with "2.IH"(3) t Some False have "same_frame st1 st'" by simp
      with f1 show ?thesis by (rule same_frame_trans)
    next
      case True
      obtain u s2 where u: "updateQueueItem e (item_id item)
          (\<lambda>q. q\<lparr>retryCount := retryCount item + 1\<rparr>) (store st1) = (u, s2)"
        by (cases "updateQueueItem e (item_id item)
          (\<lambda>q. q\<lparr>retryCount := retryCount item + 1\<rparr>) (store st1)")
      then have "status_writes s2 = status_writes (store st1)"
        by (rule updateQueueItem_status_writes)
      with f1 have f2: "same_frame st (st1\<lparr>store := s2\<rparr>)" by (rule same_frame_store)
      show ?thesis
      proof (cases u)
        case (Some y)
        with t \<open>t = Some x\<close> True u "2.prems" f2 show ?thesis by simp
      next
        case None
        with t \<open>t = Some x\<close> True u "2.prems"
        have d: "drain_loop e rest (synced, failed, errs) (st1\<lparr>store := s2\<rparr>) = (r, st')"
          by simp
        from "2.IH"(2) [OF t [symmetric] \<open>t = Some x\<close> True u [symmetric] None d]
        have "same_frame (st1\<lparr>store := s2\<rparr>) st'" .
        with f2 show ?thesis by (rule same_frame_trans)
      qed
    qed
  qed
qed

lemma syncOfflineQueue_frame: "syncOfflineQueue e st = (r, st') \<Longrightarrow> same_frame st st'"
proof -
  assume h: "syncOfflineQueue e st = (r, st')"
  let ?s2 = "deduplicateQueue e (cleanupOldQueueItems e 24 (store st))"
  have f0: "same_frame st (st\<lparr>store := ?s2\<rparr>)"
    by (rule same_frame_store [OF same_frame_refl])
       (simp add: deduplicateQueue_status_writes cleanupOldQueueItems_status_writes)
  obtain d st2 where d: "drain_loop e (getPrioritizedQueue e ?s2) (0, 0, []) (st\<lparr>store := ?s2\<rparr>)
    = (d, st2)"
    by (cases "drain_loop e (getPrioritizedQueue e ?s2) (0, 0, []) (st\<lparr>store := ?s2\<rparr>)")
  then have "same_frame (st\<lparr>store := ?s2\<rparr>) st2" by (rule drain_loop_frame)
  with f0 have "same_frame st st2" by (rule same_frame_trans)
  moreover from h d have "st' = st2"
    by (auto simp: syncOfflineQueue_def Let_def split: sum.splits prod.splits)
  ultimately show ?thesis by simp
qed

lemma pull_block_frame:
  assumes c: "\<And>rows s r s'. cache rows s = (r, s') \<Longrightarrow> status_writes s' = status_writes s"
    and p: "pull_block e call fetched cache name acc st = (acc', st')"
  shows "same_frame st st'"
proof -
  have f1: "same_frame st (st\<lparr>remote_log := remote_log st @ [call]\<rparr>)"
    by (simp add: same_frame_def)
  show ?thesis
  proof (cases fetched)
    case (Inl x)
    with p f1 show ?thesis
      by (auto simp: pull_block_def Let_def split: prod.splits)
  next
    case (Inr rows)
    obtain r s2 where k: "cache rows (store (st\<lparr>remote_log := remote_log st @ [call]\<rparr>)) = (r, s2)"
      by (cases "cache rows (store (st\<lparr>remote_log := remote_log st @ [call]\<rparr>))")
    from c [OF k] have "status_writes s2 = status_writes (store st)" by simp
    then have "same_frame st (st\<lparr>remote_log := remote_log st @ [call], store := s2\<rparr>)"
      by (simp add: same_frame_def)
    with p Inr k show ?thesis
      by (auto simp: pull_block_def Let_def split: prod.splits option.splits)
  qed
qed

lemma syncFromServer_frame: "syncFromServer e st = (r, st') \<Longrightarrow> same_frame st st'"
proof -
  assume h: "syncFromServer e st = (r, st')"
  obtain a1 st1 where b1: "pull_block e GetAllProducts (getAll_products e)
      (syncProductsWithConflictResolution e) ''products'' (0, 0, []) st = (a1, st1)"
    by (cases "pull_block e GetAllProducts (getAll_products e)
      (syncProductsWithConflictResolution e) ''products'' (0, 0, []) st")
  obtain a2 st2 where b2: "pull_block e GetAllSales (getAll_sales e)
      (syncSalesWithConflictResolution e) ''sales'' a1 st1 = (a2, st2)"
    by (cases "pull_block e GetAllSales (getAll_sales e)
      (syncSalesWithConflictResolution e) ''sales'' a1 st1")
  obtain a3 st3 where b3: "pull_block e GetAllSellers (getAll_sellers e)
      (cacheSellers e) ''sellers'' a2 st2 = (a3, st3)"
    by (cases "pull_block e GetAllSellers (getAll_sellers e) (cacheSellers e) ''sellers'' a2 st2")
  obtain a4 st4 where b4: "pull_block e GetAllCategories (getAll_categories e)
      (cacheCategories e) ''categories'' a3 st3 = (a4, st4)"
    by (cases "pull_block e GetAllCategories (getAll_categories e)
      (cacheCategories e) ''categories'' a3 st3")
  have "same_frame st st1" by (rule pull_block_frame [OF _ b1]) (rule merge_status_writes)
  moreover have "same_frame st1 st2" by (rule pull_block_frame [OF _ b2]) (rule merge_status_writes)
  moreover have "same_frame st2 st3" by (rule pull_block_frame [OF _ b3]) (rule cache_status_writes)
  moreover have "same_frame st3 st4" by (rule pull_block_frame [OF _ b4]) (rule cache_status_writes)
  ultimately have "same_frame st st4" by (blast intro: same_frame_trans)
  moreover from h b1 b2 b3 b4 have "st' = st4"
    by (auto simp: syncFromServer_def Let_def split: prod.splits)
  ultimately show ?thesis by simp
qed

lemma performSync_frame: "performSync e st = (r, st') \<Longrightarrow> same_frame st st'"
proof -
  assume h: "performSync e st = (r, st')"
  obtain q st1 where q: "syncOfflineQueue e st = (q, st1)" by (cases "syncOfflineQueue e st")
  then have f1: "same_frame st st1" by (rule syncOfflineQueue_frame)
  show ?thesis
  proof (cases q)
    case (Inl x)
    with h q f1 show ?thesis by (simp add: performSync_def)
  next
    case (Inr queueResult)
    obtain c st2 where c: "syncFromServer e st1 = (c, st2)" by (cases "syncFromServer e st1")
    then have "same_frame st1 st2" by (rule syncFromServer_frame)
    with f1 have "same_frame st st2" by (rule same_frame_trans)
    with h q Inr c show ?thesis by (simp add: performSync_def)
  qed
qed

lemma setSyncStatus_effect:
  "setSyncStatus e v s = (r, s') \<Longrightarrow>
   status_writes s' = status_writes s + 1 \<and> r = setItem_throws e SYNC_STATUS_KEY
   \<and> (r = None \<longrightarrow> sync_status_blob s' = Some v)"
  by (auto simp: setSyncStatus_def setItem_def status_writes_def Let_def split: option.splits)

lemma ui_steps:
  "isOnline_flag (showToast m t st) = isOnline_flag st"
  "syncInProgress (showToast m t st) = syncInProgress st"
  "store (showToast m t st) = store st"
  "remote_log (showToast m t st) = remote_log st"
  "isOnline_flag (setLoading b l st) = isOnline_flag st"
  "syncInProgress (setLoading b l st) = syncInProgress st"
  "store (setLoading b l st) = store st"
  "remote_log (setLoading b l st) = remote_log st"
  by (simp_all add: showToast_def setLoading_def)

lemma sync_cycle_effect:
  assumes c: "sync_cycle e st = (r, st')"
  shows "isOnline_flag st' = isOnline_flag st \<and> \<not> syncInProgress st'
    \<and> status_writes (store st') = status_writes (store st) + 1
    \<and> (setItem_throws e SYNC_STATUS_KEY = None \<longrightarrow>
         sync_status_blob (store st') =
           Some \<lparr>lastSync = now e, isOnline = True, pendingItems = failedItems r\<rparr>)"
proof -
  let ?st2 = "setLoading True (Some ''Syncing data...'') (st\<lparr>syncInProgress := True\<rparr>)"
  obtain result st3 where p: "performSync e ?st2 = (result, st3)"
    by (cases "performSync e ?st2")
  then have "same_frame ?st2 st3" by (rule performSync_frame)
  then have f: "isOnline_flag st3 = isOnline_flag st"
    "status_writes (store st3) = status_writes (store st)"
    by (simp_all add: same_frame_def ui_steps)
  let ?v = "\<lparr>lastSync = now e, isOnline = True, pendingItems = failedItems result\<rparr>"
  obtain w s4 where w: "setSyncStatus e ?v (store st3) = (w, s4)"
    by (cases "setSyncStatus e ?v (store st3)")
  note eff = setSyncStatus_effect [OF w]
  show ?thesis
  proof (cases w)
    case None
    with c p w have "r = result" and "store st' = s4" and "isOnline_flag st' = isOnline_flag st3"
      and "\<not> syncInProgress st'"
      by (auto simp: sync_cycle_def Let_def ui_steps split: if_splits)
    with eff f None show ?thesis by simp
  next
    case (Some x)
    with c p w have "store st' = s4" and "isOnline_flag st' = isOnline_flag st3"
      and "\<not> syncInProgress st'"
      by (auto simp: sync_cycle_def Let_def ui_steps split: if_splits)
    with eff f Some show ?thesis by auto
  qed
qed

lemma syncAll_flag: "isOnline_flag (snd (syncAll e st)) = isOnline_flag st"
  using sync_cycle_effect [OF surjective_pairing, of e st]
  by (simp add: syncAll_def)

lemma queueOperation_flag: "isOnline_flag (snd (queueOperation e tb ty d st)) = isOnline_flag st"
proof -
  obtain r st1 where p: "processQueueItem e tb ty d st = (r, st1)"
    by (cases "processQueueItem e tb ty d st")
  then have "same_frame st st1" by (rule processQueueItem_frame)
  then have "isOnline_flag st1 = isOnline_flag st" by (simp add: same_frame_def)
  with p show ?thesis
    by (auto simp: queueOperation_def queueOperation_online_def queueOperation_offline_def
        split: prod.splits option.splits)
qed

lemma clearOfflineData_flag: "isOnline_flag (snd (clearOfflineData e st)) = isOnline_flag st"
  by (auto simp: clearOfflineData_def split: prod.splits option.splits)

lemma retry_loop_frame: "retry_loop e items acc st = (r, st') \<Longrightarrow> same_frame st st'"
proof (induction e items acc st arbitrary: r st' rule: retry_loop.induct)
  case (1 e acc st)
  then show ?case by (simp add: same_frame_refl)
next
  case (2 e item rest synced failed errs st)
  obtain t st1 where t: "try_item e item st = (t, st1)" by (cases "try_item e item st")
  then have f1: "same_frame st st1" by (rule try_item_frame)
  show ?case
  proof (cases t)
    case None
    with t "2.prems" have "retry_loop e rest (synced + 1, failed, errs) st1 = (r, st')"
      by simp
    with "2.IH"(1) t None have "same_frame st1 st'" by simp
    with f1 show ?thesis by (rule same_frame_trans)
  next
    case (Some x)
    with t "2.prems" "2.IH"(2) have "same_frame st1 st'" by simp
    with f1 show ?thesis by (rule same_frame_trans)
  qed
qed

lemma retryFailedOperations_flag:
  "isOnline_flag (snd (retryFailedOperations e st)) = isOnline_flag st"
proof -
  obtain a st1 where r: "retry_loop e (getFailedItems e (store st)) (0, 0, []) st = (a, st1)"
    by (cases "retry_loop e (getFailedItems e (store st)) (0, 0, []) st")
  then have "same_frame st st1" by (rule retry_loop_frame)
  with r show ?thesis
    by (simp add: retryFailedOperations_def same_frame_def split: prod.splits)
qed

lemma run_flag: "isOnline_flag st \<Longrightarrow> isOnline_flag (run e c st)"
  by (cases c)
     (simp_all add: initialize_def syncAll_flag queueOperation_flag forceSync_def
        clearOfflineData_flag retryFailedOperations_flag)

lemma reachable_flag: "reachable st \<Longrightarrow> isOnline_flag st"
  by (induction rule: reachable.induct) (simp_all add: run_flag)

section \<open>The pull, block by block\<close>

















section \<open>The code against the words of the claims\<close>

lemma compare_items_claimed:
  "compare_items a b \<le> 0 \<longleftrightarrow>
     claimed_band (priority a) < claimed_band (priority b)
     \<or> (claimed_band (priority a) = claimed_band (priority b) \<and> timestamp a \<le> timestamp b)"
proof -
  have "priorityOrder (priority_or_normal x) = int (claimed_band (priority x))" for x
    by (cases "priority x" rule: claimed_band.cases) (simp_all add: priority_or_normal_def)
  then show ?thesis
    by (auto simp: compare_items_def Let_def)
qed






text \<open>
  The stored queue lists each key once, in the reverse of the order of the last
  occurrences of the keys.
\<close>

lemma deduplicateQueue_key_order:
  "setItem_throws e QUEUE_KEY = None \<Longrightarrow>
   map dedup_key (getQueue e (deduplicateQueue e s)) =
     rev (remdups (map dedup_key (getQueue e s)))"
proof -
  assume w: "setItem_throws e QUEUE_KEY = None"
  have "map dedup_key (map snd (dedup_seen q)) = map fst (dedup_seen q)" for q
    by (auto dest: dedup_seen_entries)
  then show ?thesis
    by (simp only: getQueue_deduplicateQueue [OF w] dedup_seen_keys)
qed

section \<open>The loops, the queue and the remote calls\<close>

subsection \<open>A property of the store along the loops\<close>




subsection \<open>The remote calls of the drain\<close>




subsection \<open>Where the items of the queue come from\<close>








section \<open>The caches of the program\<close>

lemma no_temporary_cached_blobs:
  "products_blob s' = products_blob s \<Longrightarrow> sales_blob s' = sales_blob s \<Longrightarrow>
   sellers_blob s' = sellers_blob s \<Longrightarrow> no_temporary_cached s' = no_temporary_cached s"
  by (simp add: no_temporary_cached_def)
























section \<open>Unfolding the model on concrete states\<close>

lemmas storage_steps =
  getQueue_def set_queue_def setItem_def removeFromQueue_def updateQueueItem_def
  cleanupOldQueueItems_def deduplicateQueue_def dedup_seen_def dedup_step_def dedup_key_def
  getPrioritizedQueue_def sort_by_def compare_items_def priority_or_normal_def
  shouldRetryItem_def MAX_RETRY_COUNT_def cacheProducts_def cacheSales_def cacheSellers_def
  cacheCategories_def getCachedSales_def setSyncStatus_def

lemmas service_steps =
  api_def processQueueItem_def try_item_def item_error_def syncOfflineQueue_def
  syncProductsWithConflictResolution_def syncSalesWithConflictResolution_def localMap_def
  startsWith_def pull_block_def syncFromServer_def performSync_def sync_cycle_def syncAll_def
  setLoading_def showToast_def

lemmas queueing_steps =
  after_queueing_def refusing_env_def failing_remote_env_def working_env_def state_with_def
  initial_ui_def empty_storage_def queueOperation_def queueOperation_online_def
  processQueueItem_def api_def addToQueue_def set_queue_def setItem_def getQueue_def
  queued_def


section \<open>The claims about the queue\<close>




text \<open>
  C6. \<open>deduplicateQueue\<close> reorders the items it keeps. Two updates of different
  products, queued \<open>A\<close> then \<open>B\<close> in the same millisecond, both kept, are stored as
  \<open>B\<close>, \<open>A\<close>; and since the two have the same priority and timestamp, the next cycle
  sends \<open>B\<close> before \<open>A\<close>, though \<open>A\<close> was queued first.
\<close>

theorem deduplicateQueue_reorders:
  "getQueue working_env (store (after_queueing
      [(Products, Update, stock_update ''A'' ''9'', 10, ''10_0.3''),
       (Products, Update, stock_update ''B'' ''5'', 10, ''10_0.8'')]))
     = [queued Products Update (stock_update ''A'' ''9'') 10 ''10_0.3'',
        queued Products Update (stock_update ''B'' ''5'') 10 ''10_0.8'']
   \<and> getQueue working_env (deduplicateQueue working_env (store (after_queueing
      [(Products, Update, stock_update ''A'' ''9'', 10, ''10_0.3''),
       (Products, Update, stock_update ''B'' ''5'', 10, ''10_0.8'')])))
     = [queued Products Update (stock_update ''B'' ''5'') 10 ''10_0.8'',
        queued Products Update (stock_update ''A'' ''9'') 10 ''10_0.3'']
   \<and> remote_log (after_queueing
      [(Products, Update, stock_update ''A'' ''9'', 10, ''10_0.3''),
       (Products, Update, stock_update ''B'' ''5'', 10, ''10_0.8'')])
     = [ApiUpdate Products (Some ''A'') (stock_update ''A'' ''9''),
        ApiUpdate Products (Some ''B'') (stock_update ''B'' ''5'')]
   \<and> remote_log (run working_env SyncAll (after_queueing
      [(Products, Update, stock_update ''A'' ''9'', 10, ''10_0.3''),
       (Products, Update, stock_update ''B'' ''5'', 10, ''10_0.8'')]))
     = [ApiUpdate Products (Some ''A'') (stock_update ''A'' ''9''),
        ApiUpdate Products (Some ''B'') (stock_update ''B'' ''5''),
        ApiUpdate Products (Some ''B'') (stock_update ''B'' ''5''),
        ApiUpdate Products (Some ''A'') (stock_update ''A'' ''9''),
        GetAllProducts, GetAllSales, GetAllSellers, GetAllCategories]"
  by (simp add: queueing_steps storage_steps service_steps stock_update_def Let_def
      show_nat.simps)

text \<open>
  C7. \<open>getPrioritizedQueue\<close> returns the items of the queue sorted by priority in the
  order critical, high, normal, low, an item without priority counting as normal, and
  by timestamp, oldest first, inside one band; three items of priority low, critical
  and normal, queued in that order, come out as critical, normal, low. The bands are
  the ones of \<open>claimed_band\<close>, written from the claim.
\<close>

theorem getPrioritizedQueue_order:
  "sorted_wrt
     (\<lambda>a b. claimed_band (priority a) < claimed_band (priority b)
            \<or> (claimed_band (priority a) = claimed_band (priority b)
                \<and> timestamp a \<le> timestamp b))
     (getPrioritizedQueue e s)
   \<and> mset (getPrioritizedQueue e s) = mset (getQueue e s)
   \<and> (getQueue e s = [a, b, c] \<and> priority a = Some Low \<and> priority b = Some Critical
        \<and> priority c = Some Normal
      \<longrightarrow> getPrioritizedQueue e s = [b, c, a])"
proof (intro conjI impI)
  have "sorted_wrt (\<lambda>a b. compare_items a b \<le> 0) (getPrioritizedQueue e s)"
    by (simp add: getPrioritizedQueue_def sorted_sort_by)
  then show "sorted_wrt
     (\<lambda>a b. claimed_band (priority a) < claimed_band (priority b)
            \<or> (claimed_band (priority a) = claimed_band (priority b)
                \<and> timestamp a \<le> timestamp b))
     (getPrioritizedQueue e s)"
    by (simp add: compare_items_claimed)
next
  show "mset (getPrioritizedQueue e s) = mset (getQueue e s)"
    by (simp add: getPrioritizedQueue_def mset_sort_by)
next
  assume h: "getQueue e s = [a, b, c] \<and> priority a = Some Low \<and> priority b = Some Critical
        \<and> priority c = Some Normal"
  then show "getPrioritizedQueue e s = [b, c, a]"
    by (simp add: getPrioritizedQueue_def sort_by_def compare_items_def priority_or_normal_def)
qed

theorem getPrioritizedQueue_order_witness:
  "getPrioritizedQueue working_env
      (storage_with_queue
         [(nameless_item ''q1'' ''1'' 10)\<lparr>priority := Some Low\<rparr>,
          (nameless_item ''q2'' ''2'' 20)\<lparr>priority := Some Critical\<rparr>,
          (nameless_item ''q3'' ''3'' 30)\<lparr>priority := Some Normal\<rparr>])
     = [(nameless_item ''q2'' ''2'' 20)\<lparr>priority := Some Critical\<rparr>,
        (nameless_item ''q3'' ''3'' 30)\<lparr>priority := Some Normal\<rparr>,
        (nameless_item ''q1'' ''1'' 10)\<lparr>priority := Some Low\<rparr>]
   \<and> map (\<lambda>i. (priority i, timestamp i))
       (getPrioritizedQueue working_env
         (storage_with_queue
           [(nameless_item ''q1'' ''1'' 10)\<lparr>priority := Some Low\<rparr>,
            (nameless_item ''q2'' ''2'' 20)\<lparr>priority := None\<rparr>,
            (nameless_item ''q3'' ''3'' 30)\<lparr>priority := Some Critical\<rparr>,
            (nameless_item ''q4'' ''4'' 40)\<lparr>priority := Some High\<rparr>,
            (nameless_item ''q5'' ''5'' 15)\<lparr>priority := Some Normal\<rparr>,
            (nameless_item ''q6'' ''6'' 5)\<lparr>priority := Some High\<rparr>]))
     = [(Some Critical, 30), (Some High, 5), (Some High, 40), (Some Normal, 15), (None, 20),
        (Some Low, 10)]"
proof -
  let ?a = "(nameless_item ''q1'' ''1'' 10)\<lparr>priority := Some Low\<rparr>"
    and ?b = "(nameless_item ''q2'' ''2'' 20)\<lparr>priority := Some Critical\<rparr>"
    and ?c = "(nameless_item ''q3'' ''3'' 30)\<lparr>priority := Some Normal\<rparr>"
  let ?s = "storage_with_queue [?a, ?b, ?c]"
  have q: "getQueue working_env ?s = [?a, ?b, ?c]"
    by (simp add: getQueue_def working_env_def storage_with_queue_def empty_storage_def)
  have p: "priority ?a = Some Low \<and> priority ?b = Some Critical \<and> priority ?c = Some Normal"
    by simp
  from getPrioritizedQueue_order [of working_env ?s ?a ?b ?c] q p
  have three: "getPrioritizedQueue working_env ?s = [?b, ?c, ?a]" by blast
  have six: "map (\<lambda>i. (priority i, timestamp i))
       (getPrioritizedQueue working_env
         (storage_with_queue
           [(nameless_item ''q1'' ''1'' 10)\<lparr>priority := Some Low\<rparr>,
            (nameless_item ''q2'' ''2'' 20)\<lparr>priority := None\<rparr>,
            (nameless_item ''q3'' ''3'' 30)\<lparr>priority := Some Critical\<rparr>,
            (nameless_item ''q4'' ''4'' 40)\<lparr>priority := Some High\<rparr>,
            (nameless_item ''q5'' ''5'' 15)\<lparr>priority := Some Normal\<rparr>,
            (nameless_item ''q6'' ''6'' 5)\<lparr>priority := Some High\<rparr>]))
     = [(Some Critical, 30), (Some High, 5), (Some High, 40), (Some Normal, 15), (None, 20),
        (Some Low, 10)]"
    by (simp add: getPrioritizedQueue_def sort_by_def compare_items_def priority_or_normal_def
        getQueue_def working_env_def storage_with_queue_def empty_storage_def nameless_item_def)
  from three six show ?thesis by simp
qed




section \<open>The claims about the sync cycle\<close>

text \<open>
  C8. When a cycle is in progress (the guard is set), \<open>syncAll\<close> returns at once the
  result that says so, with no success and no synced or failed item, and leaves the
  whole state as it was: the queue, the caches, the sync status, the UI store and the
  trace of remote calls.
\<close>

theorem syncAll_guarded:
  "syncInProgress st \<Longrightarrow>
   syncAll e st =
     (\<lparr>success = False, syncedItems = 0, failedItems = 0,
       errors = [''Sync already in progress'']\<rparr>, st)"
  by (simp add: syncAll_def)

theorem syncAll_guarded_witness:
  "syncInProgress ((state_with empty_storage)\<lparr>syncInProgress := True\<rparr>) \<and>
   syncAll working_env ((state_with empty_storage)\<lparr>syncInProgress := True\<rparr>) =
     (\<lparr>success = False, syncedItems = 0, failedItems = 0,
       errors = [''Sync already in progress'']\<rparr>,
      (state_with empty_storage)\<lparr>syncInProgress := True\<rparr>)"
  using syncAll_guarded [of "(state_with empty_storage)\<lparr>syncInProgress := True\<rparr>" working_env]
  by simp

text \<open>
  C1. The bound on retries does not stop the sending. An item whose retry count has
  reached \<open>MAX_RETRY_COUNT\<close> (so that \<open>shouldRetryItem\<close> is false) and that is still in
  the queue is sent to the remote interface again by the next cycle, stays in the
  queue and is counted as failed; an item that fails every time is sent in each of five
  consecutive cycles, its retry count stopping at 3.
\<close>

theorem exhausted_item_is_sent_again:
  "\<not> shouldRetryItem ((update_item ''q1'' ''A'' ''8'' 900)\<lparr>retryCount := 3\<rparr>)
   \<and> remote_log (snd (syncAll failing_remote_env
        (state_with (storage_with_queue [(update_item ''q1'' ''A'' ''8'' 900)\<lparr>retryCount := 3\<rparr>]))))
     = [ApiUpdate Products (Some ''A'')
          \<lparr>payload_id = Some ''A'', payload_name = None, payload_fields = [(''stock'', ''8'')]\<rparr>,
        GetAllProducts, GetAllSales, GetAllSellers, GetAllCategories]
   \<and> getQueue failing_remote_env (store (snd (syncAll failing_remote_env
        (state_with (storage_with_queue [(update_item ''q1'' ''A'' ''8'' 900)\<lparr>retryCount := 3\<rparr>])))))
     = [(update_item ''q1'' ''A'' ''8'' 900)\<lparr>retryCount := 3\<rparr>]
   \<and> failedItems (fst (syncAll failing_remote_env
        (state_with (storage_with_queue [(update_item ''q1'' ''A'' ''8'' 900)\<lparr>retryCount := 3\<rparr>]))))
     = 1
   \<and> filter (\<lambda>c. c \<notin> {GetAllProducts, GetAllSales, GetAllSellers, GetAllCategories})
       (remote_log
         (run failing_remote_env SyncAll (run failing_remote_env SyncAll
           (run failing_remote_env SyncAll (run failing_remote_env SyncAll
             (run failing_remote_env SyncAll
               (state_with (storage_with_queue [update_item ''q1'' ''A'' ''8'' 900]))))))))
     = replicate 5 (ApiUpdate Products (Some ''A'')
          \<lparr>payload_id = Some ''A'', payload_name = None, payload_fields = [(''stock'', ''8'')]\<rparr>)
   \<and> map retryCount (getQueue failing_remote_env (store
       (run failing_remote_env SyncAll (run failing_remote_env SyncAll
         (run failing_remote_env SyncAll (run failing_remote_env SyncAll
           (run failing_remote_env SyncAll
             (state_with (storage_with_queue [update_item ''q1'' ''A'' ''8'' 900])))))))))
     = [3]"
  by (simp add: storage_steps service_steps failing_remote_env_def working_env_def
      state_with_def initial_ui_def storage_with_queue_def empty_storage_def update_item_def
      Let_def show_nat.simps eval_nat_numeral)








text \<open>
  C10. In every state the service can reach the online flag is set. So
  \<open>queueOperation\<close> always takes the branch that sends the operation at once, a call of
  \<open>syncAll\<close> that is not stopped by the guard runs the cycle, and \<open>syncAll\<close> never makes
  the return of the offline branch (the \<open>Device is offline\<close> result with the state
  untouched).
\<close>

theorem online_flag_always_true:
  assumes "reachable st"
  shows "isOnline_flag st
    \<and> queueOperation e tb ty d st = queueOperation_online e tb ty d st
    \<and> (syncInProgress st \<or> syncAll e st = sync_cycle e st)
    \<and> syncAll e st \<noteq>
        (\<lparr>success = False, syncedItems = 0, failedItems = 0, errors = [''Device is offline'']\<rparr>,
         st)"
proof -
  from assms have on: "isOnline_flag st" by (rule reachable_flag)
  have "syncAll e st \<noteq>
        (\<lparr>success = False, syncedItems = 0, failedItems = 0, errors = [''Device is offline'']\<rparr>,
         st)"
  proof (cases "syncInProgress st")
    case True
    then show ?thesis by (simp add: syncAll_def)
  next
    case False
    from sync_cycle_effect [OF surjective_pairing, of e st]
    have "status_writes (store (snd (sync_cycle e st))) \<noteq> status_writes (store st)" by simp
    then have "snd (sync_cycle e st) \<noteq> st" by auto
    with False on show ?thesis by (auto simp: syncAll_def)
  qed
  with on show ?thesis by (simp add: queueOperation_def syncAll_def)
qed

theorem online_flag_always_true_witness:
  "reachable (run failing_remote_env (QueueOperation Products Delete None)
               (run working_env SyncAll (state_with empty_storage)))
   \<and> isOnline_flag (run failing_remote_env (QueueOperation Products Delete None)
               (run working_env SyncAll (state_with empty_storage)))"
proof -
  have "reachable (state_with empty_storage)"
    unfolding state_with_def by (rule reachable.start)
  then have r: "reachable (run failing_remote_env (QueueOperation Products Delete None)
               (run working_env SyncAll (state_with empty_storage)))"
    by (intro reachable.call)
  from online_flag_always_true [OF r] r show ?thesis by simp
qed

end
